theory Spec2Isabelle
  imports Complex_Main
begin

section \<open>The numeric library, as far as the script uses it\<close>

text \<open>
  The script \<^verbatim>\<open>fashion_local_regression.py\<close> computes with numpy arrays of
  double-precision numbers. Arrays are modelled as lists and the arithmetic is taken over
  the reals: rounding is not modelled.
\<close>

subsection \<open>The process-wide random generator\<close>

text \<open>
  \<^verbatim>\<open>np.random.seed\<close> and \<^verbatim>\<open>np.random.normal\<close> are functions of the numeric library,
  not of the repository; they act on one generator shared by the whole process. Its state
  is determined by the seed it was last given and by the number of variates handed out
  since then; the state the process starts with is one more such value.
\<close>

record rng_state =
  seeded_with :: nat
  consumed :: nat

text \<open>
  The variates themselves come from the library's generator, which is not part of the
  repository: \<open>gs s i\<close> stands for the \<open>i\<close>-th standard-normal variate that the generator
  produces after it has been seeded with \<open>s\<close>. Every function that draws takes \<open>gs\<close> as its
  first argument.
\<close>

type_synonym gauss_source = "nat \<Rightarrow> nat \<Rightarrow> real"

definition np_random_seed :: "nat \<Rightarrow> rng_state \<Rightarrow> rng_state" where
  "np_random_seed s g = \<lparr>seeded_with = s, consumed = 0\<rparr>"

definition np_random_normal ::
  "gauss_source \<Rightarrow> real \<Rightarrow> nat \<Rightarrow> rng_state \<Rightarrow> real list \<times> rng_state" where
  \<comment> \<open>\<^verbatim>\<open>np.random.normal(scale=scale, size=sz)\<close>; the location keeps its default 0.\<close>
  "np_random_normal gs scale sz g =
     (map (\<lambda>i. 0 + scale * gs (seeded_with g) (consumed g + i)) [0..<sz],
      g\<lparr>consumed := consumed g + sz\<rparr>)"

subsection \<open>Evenly spaced samples\<close>

definition np_linspace :: "real \<Rightarrow> real \<Rightarrow> nat \<Rightarrow> real list" where
  \<comment> \<open>Modelled from the spec: numpy's \<^verbatim>\<open>linspace\<close> is not part of the repository. The call
      \<^verbatim>\<open>np.linspace(start, stop, num)\<close> yields \<open>num\<close> evenly spaced values from \<open>start\<close> to
      \<open>stop\<close> inclusive: the step is \<open>(stop - start) / (num - 1)\<close> and the last value is set
      to \<open>stop\<close>.\<close>
  "np_linspace start stop num =
     (let step = (stop - start) / real (num - 1);
          ys = map (\<lambda>i. real i * step + start) [0..<num]
      in if 1 < num then ys[num - 1 := stop] else ys)"

section \<open>The script\<close>

subsection \<open>\<^verbatim>\<open>generate_data\<close>\<close>

definition generate_data :: "gauss_source \<Rightarrow> rng_state \<Rightarrow> (real list \<times> real list) \<times> rng_state" where
  "generate_data gs g0 =
     (let g1 = np_random_seed 42 g0;
          x = np_linspace 0 24 100;
          (noise, g2) = np_random_normal gs 1 (length x) g1;
          y = map2 (\<lambda>xi ni. 10 + 2 * sin (2 * pi * xi / 12) + ni) x noise
      in ((x, y), g2))"

subsection \<open>\<^verbatim>\<open>perform_lowess\<close>\<close>

text \<open>
  \<^verbatim>\<open>perform_lowess(x, y, frac=0.2)\<close> hands its arguments to the smoothing routine of the
  statistics package, \<^verbatim>\<open>lowess(y, x, frac=frac)\<close>, and returns what that returns. The
  routine is a parameter \<open>lw\<close>; it answers with an error of some type \<open>'e\<close> or with the rows of
  an \<open>N \<times> 2\<close> array. A call that leaves \<^verbatim>\<open>frac\<close> out is \<open>None\<close>. The literal \<^verbatim>\<open>0.2\<close> is
  read as the real \<open>1/5\<close>.
\<close>

type_synonym 'e smoother = "real list \<Rightarrow> real list \<Rightarrow> real \<Rightarrow> 'e + (real \<times> real) list"

definition frac_default :: real where
  "frac_default = 2 / 10"

definition perform_lowess ::
  "'e smoother \<Rightarrow> real list \<Rightarrow> real list \<Rightarrow> real option \<Rightarrow> 'e + (real \<times> real) list" where
  "perform_lowess lw x y frac_arg =
     (let smoothed = lw y x (case frac_arg of None \<Rightarrow> frac_default | Some f \<Rightarrow> f)
      in smoothed)"

subsection \<open>\<^verbatim>\<open>plot_results\<close> and \<^verbatim>\<open>main\<close>\<close>

text \<open>
  What a run leaves behind: the state of the random generator, the lines printed and the
  calls made to the plotting library, in order.
\<close>

datatype plt_call =
    Figure nat nat
  | Scatter "real list" "real list" string string real
  | Plot "real list" "real list" string string nat
  | Xlabel string
  | Ylabel string
  | Title string
  | Legend
  | Grid bool
  | Show

record world =
  rng :: rng_state
  stdout :: "string list"
  plt :: "plt_call list"

definition print :: "string \<Rightarrow> world \<Rightarrow> world" where
  "print s w = w\<lparr>stdout := stdout w @ [s]\<rparr>"

definition plot_results :: "real list \<Rightarrow> real list \<Rightarrow> (real \<times> real) list \<Rightarrow> world \<Rightarrow> world" where
  "plot_results x y smoothed w =
     w\<lparr>plt := plt w @
       [Figure 10 6,
        Scatter x y ''Original Data'' ''blue'' (5 / 10),
        Plot (map fst smoothed) (map snd smoothed) ''Lowess Smoothed'' ''red'' 2,
        Xlabel ''Month'',
        Ylabel ''Fashion Trend Indicator'',
        Title ''Local Regression (LOWESS) on Fashion Trend Data'',
        Legend,
        Grid True,
        Show]\<rparr>"

definition narration :: "string list" where
  "narration =
     [CHR 0x0A # ''Explanation:'',
      ''The blue points represent the original synthetic fashion trend data (with noise and seasonal effects).'',
      ''The red line is the LOWESS smoothed curve, which reveals the underlying trend by smoothing the data,'',
      ''making it easier to interpret the overall trend and patterns in fashion over time.'']"

definition main :: "gauss_source \<Rightarrow> 'e smoother \<Rightarrow> world \<Rightarrow> ('e + unit) \<times> world" where
  \<comment> \<open>An error of the smoother ends the run before anything is plotted.\<close>
  "main gs lw w0 =
     (let w1 = fold print narration w0;
          ((x, y), g) = generate_data gs (rng w1);
          w2 = w1\<lparr>rng := g\<rparr>
      in case perform_lowess lw x y (Some (2 / 10)) of
           Inl e \<Rightarrow> (Inl e, w2)
         | Inr smoothed \<Rightarrow> (Inr (), plot_results x y smoothed w2))"

subsection \<open>The smoothing routine, as the specification describes it\<close>











subsection \<open>A concrete generator source\<close>

text \<open>
  A generator source for running the model on concrete inputs: every variate is 0.
\<close>

definition no_noise :: gauss_source where
  "no_noise s i = 0"

section \<open>The generated sample\<close>

lemma np_linspace_length: "length (np_linspace start stop num) = num"
  by (simp add: np_linspace_def Let_def)

lemma np_linspace_nth:
  assumes "i < num"
  shows "np_linspace start stop num ! i =
           (if 1 < num \<and> i = num - 1 then stop
            else real i * ((stop - start) / real (num - 1)) + start)"
  using assms by (simp add: np_linspace_def Let_def nth_list_update)

lemma sample_x_nth:
  assumes "i < 100"
  shows "np_linspace 0 24 100 ! i = 24 * real i / 99"
proof (cases "i = 99")
  case True
  then show ?thesis by (simp add: np_linspace_nth)
next
  case False
  with assms show ?thesis by (simp add: np_linspace_nth)
qed

lemma sample_x_closed_form: "np_linspace 0 24 100 = map (\<lambda>i. 24 * real i / 99) [0..<100]"
proof (rule nth_equalityI)
  show "length (np_linspace 0 24 100) = length (map (\<lambda>i. 24 * real i / 99) [0..<100])"
    by (simp add: np_linspace_length)
next
  fix i
  assume "i < length (np_linspace 0 24 100)"
  then have i: "i < 100" by (simp add: np_linspace_length)
  then show "np_linspace 0 24 100 ! i = map (\<lambda>i. 24 * real i / 99) [0..<100] ! i"
    by (simp add: sample_x_nth)
qed

lemma map2_over_same_list:
  "map2 f (map a ks) (map b ks) = map (\<lambda>k. f (a k) (b k)) ks"
  by (induction ks) simp_all

lemma generate_data_unfolded:
  "generate_data gs g0 =
     ((map (\<lambda>i. 24 * real i / 99) [0..<100],
       map (\<lambda>i. 10 + 2 * sin (2 * pi * (24 * real i / 99) / 12) + 1 * gs 42 i) [0..<100]),
      \<lparr>seeded_with = 42, consumed = 100\<rparr>)"
proof -
  have n: "length (np_linspace 0 24 100) = 100"
    by (simp add: np_linspace_length)
  have noise: "np_random_normal gs 1 100 (np_random_seed 42 g0) =
                 (map (\<lambda>i. 1 * gs 42 i) [0..<100], \<lparr>seeded_with = 42, consumed = 100\<rparr>)"
    by (simp add: np_random_normal_def np_random_seed_def)
  have y: "map2 (\<lambda>xi ni. 10 + 2 * sin (2 * pi * xi / 12) + ni)
             (map (\<lambda>i. 24 * real i / 99) [0..<100]) (map (\<lambda>i. 1 * gs 42 i) [0..<100]) =
           map (\<lambda>i. 10 + 2 * sin (2 * pi * (24 * real i / 99) / 12) + 1 * gs 42 i) [0..<100]"
    by (rule map2_over_same_list)
  show ?thesis
    unfolding generate_data_def Let_def n
    unfolding noise prod.case sample_x_closed_form y ..
qed

lemma even_grid_increasing: "sorted_wrt (<) (map (\<lambda>i. 24 * real i / 99) [0..<n])"
proof -
  have "sorted_wrt (\<lambda>i j. 24 * real i / 99 < 24 * real j / 99) [0..<n]"
    by (rule sorted_wrt_mono_rel [OF _ sorted_wrt_upt]) simp
  then show ?thesis by (simp add: sorted_wrt_map)
qed

lemma even_grid_steps:
  "map2 (\<lambda>b a. b - a) (tl (map (\<lambda>i. c * real i / d) [0..<Suc n])) (butlast (map (\<lambda>i. c * real i / d) [0..<Suc n]))
     = replicate n (c / d)"
proof -
  have tl: "tl (map (\<lambda>i. c * real i / d) [0..<Suc n]) = map (\<lambda>i. c * real (Suc i) / d) [0..<n]"
    by (simp add: map_tl [symmetric] map_Suc_upt [symmetric] del: upt_Suc)
  have bl: "butlast (map (\<lambda>i. c * real i / d) [0..<Suc n]) = map (\<lambda>i. c * real i / d) [0..<n]"
    by simp
  have "map2 (\<lambda>b a. b - a) (map (\<lambda>i. c * real (Suc i) / d) [0..<n]) (map (\<lambda>i. c * real i / d) [0..<n])
          = map (\<lambda>i. c / d) [0..<n]"
    unfolding map2_over_same_list by (simp add: distrib_left add_divide_distrib)
  also have "\<dots> = replicate n (c / d)"
    by (simp add: map_replicate_const)
  finally show ?thesis
    unfolding tl bl .
qed

text \<open>
  C6. \<^verbatim>\<open>generate_data\<close> takes no argument. The \<open>x\<close> it returns has exactly 100 values, the
  \<open>i\<close>-th being \<open>24 i / 99\<close>: the first is 0, the last is 24, neighbours are \<open>24/99\<close> apart and
  the values increase strictly. The \<open>y\<close> it returns has for each of them the value
  \<open>10 + 2 sin (2 \<pi> x / 12)\<close> plus 1.0 times the standard-normal variate that the generator
  seeded with the constant 42 hands out at that position.
\<close>

theorem generate_data_sample:
  "length (fst (fst (generate_data gs g0))) = 100
   \<and> fst (fst (generate_data gs g0)) = map (\<lambda>i. 24 * real i / 99) [0..<100]
   \<and> hd (fst (fst (generate_data gs g0))) = 0
   \<and> last (fst (fst (generate_data gs g0))) = 24
   \<and> map2 (\<lambda>b a. b - a) (tl (fst (fst (generate_data gs g0)))) (butlast (fst (fst (generate_data gs g0))))
        = replicate 99 (24 / 99)
   \<and> sorted_wrt (<) (fst (fst (generate_data gs g0)))
   \<and> length (snd (fst (generate_data gs g0))) = 100
   \<and> snd (fst (generate_data gs g0)) =
        map2 (\<lambda>xi zi. 10 + 2 * sin (2 * pi * xi / 12) + 1 * zi)
          (fst (fst (generate_data gs g0))) (map (gs 42) [0..<100])"
proof -
  let ?x = "map (\<lambda>i. 24 * real i / 99) [0..<100]"
  have x: "fst (fst (generate_data gs g0)) = ?x"
    by (simp only: generate_data_unfolded fst_conv)
  have y: "snd (fst (generate_data gs g0)) =
             map (\<lambda>i. 10 + 2 * sin (2 * pi * (24 * real i / 99) / 12) + 1 * gs 42 i) [0..<100]"
    by (simp only: generate_data_unfolded fst_conv snd_conv)
  have len: "length ?x = 100" by simp
  have first: "hd ?x = 0"
    by (simp add: hd_map upt_conv_Cons del: upt_Suc)
  have final: "last ?x = 24"
  proof -
    have "last ?x = ?x ! 99" by (simp add: last_conv_nth del: upt_Suc)
    then show ?thesis by simp
  qed
  have steps: "map2 (\<lambda>b a. b - a) (tl ?x) (butlast ?x) = replicate 99 (24 / 99)"
    using even_grid_steps [of 24 99 99] by simp
  have incr: "sorted_wrt (<) ?x" by (rule even_grid_increasing)
  have ylen: "length (snd (fst (generate_data gs g0))) = 100"
    unfolding y by simp
  have yval: "snd (fst (generate_data gs g0)) =
                map2 (\<lambda>xi zi. 10 + 2 * sin (2 * pi * xi / 12) + 1 * zi) ?x (map (gs 42) [0..<100])"
    unfolding y map2_over_same_list ..
  show ?thesis
    unfolding x using len first final steps incr ylen yval unfolding x by blast
qed

section \<open>Reproducibility and the generator's state\<close>

text \<open>
  C7. Two runs of \<^verbatim>\<open>generate_data\<close> return the same \<open>(x, y)\<close>, whatever state the
  process-wide generator is in when each run starts: the result is a function of the
  constants in the code alone.
\<close>

theorem generate_data_deterministic:
  "fst (generate_data gs g) = fst (generate_data gs g')"
  by (simp add: generate_data_def np_random_seed_def)

text \<open>
  C9, as stated, fails: \<^verbatim>\<open>generate_data\<close> has no seed parameter and calls
  \<^verbatim>\<open>np.random.seed(42)\<close>, which overwrites the state of the process-wide generator. A
  process whose generator was seeded with 0 and has handed out nothing finds it changed
  after the call.
\<close>

theorem generate_data_changes_global_rng:
  "snd (generate_data no_noise \<lparr>seeded_with = 0, consumed = 0\<rparr>) \<noteq> \<lparr>seeded_with = 0, consumed = 0\<rparr>"
  by (simp add: generate_data_unfolded)

text \<open>
  C9, amended. \<^verbatim>\<open>generate_data\<close> reseeds the process-wide generator with the constant 42
  and draws 100 variates from it: whatever the state was before the call, afterwards it is
  the state of a generator seeded with 42 that has handed out 100 variates.
\<close>

theorem generate_data_reseeds_global_rng:
  "snd (generate_data gs g) = \<lparr>seeded_with = 42, consumed = 100\<rparr>"
  by (simp only: generate_data_unfolded snd_conv)

section \<open>The pipeline\<close>

lemma rng_fold_print: "rng (fold print ss w) = rng w"
  by (induction ss arbitrary: w) (simp_all add: print_def)

text \<open>
  C10. \<^verbatim>\<open>main\<close> prints the narration, generates the sample and smooths it with the
  bandwidth fraction 0.2: the outcome of the run is the outcome of the smoothing routine at
  \<open>(y, x, 0.2)\<close>, and the curve that is plotted is the one it returns. A call of
  \<^verbatim>\<open>perform_lowess\<close> that leaves the fraction out uses the same 0.2.
\<close>

theorem main_smooths_with_frac_default:
  "main gs lw w0 =
     (let w1 = fold print narration w0;
          ((x, y), g) = generate_data gs (rng w0);
          w2 = w1\<lparr>rng := g\<rparr>
      in case lw y x (2 / 10) of
           Inl e \<Rightarrow> (Inl e, w2)
         | Inr smoothed \<Rightarrow> (Inr (), plot_results x y smoothed w2))
   \<and> main gs lw w0 = main gs (\<lambda>y x f. lw y x (2 / 10)) w0
   \<and> perform_lowess lw x' y' None = lw y' x' (2 / 10)
   \<and> perform_lowess lw x' y' (Some (2 / 10)) = perform_lowess lw x' y' None"
  by (simp add: main_def perform_lowess_def frac_default_def rng_fold_print Let_def)

section \<open>The smoother with the whole sample as neighbourhood\<close>















end
